theory Spec2Isabelle
  imports Main "HOL-Library.Sublist"
begin

section \<open>Go values shared by the handlers\<close>

text \<open>
  A Go function either returns or panics. Handlers that dereference a pointer or write
  to a map have the result type \<open>'a outcome\<close>, so that a nil dereference is a value of
  the model and not an unspecified term.
\<close>

datatype 'a outcome = Returns 'a | Panics

text \<open>
  Errors of the external collaborators (session store, OAuth library, Redis, gorm) are
  opaque, except \<open>gorm.ErrRecordNotFound\<close>, which the model package tests with
  \<open>errors.Is\<close>. A Go result \<open>(v, err)\<close> that the source inspects as "err first"
  is a sum \<open>go_error + 'v\<close>; a discarded result (\<open>_ = f()\<close>) is not modelled.
\<close>

datatype go_error = ErrRecordNotFound | ExternalError string

text \<open>
  \<open>url.Values\<close> is \<open>map[string][]string\<close>. A Go map value may be nil: reading a nil
  map yields the zero value, writing to it panics.
\<close>

type_synonym Values = "(string \<rightharpoonup> string list) option"

definition Values_Get :: "Values \<Rightarrow> string \<Rightarrow> string" where
  "Values_Get v key =
     (case v of
        None \<Rightarrow> []
      | Some m \<Rightarrow> (case m key of None \<Rightarrow> [] | Some [] \<Rightarrow> [] | Some (x # _) \<Rightarrow> x))"

definition Values_Add :: "Values \<Rightarrow> string \<Rightarrow> string \<Rightarrow> Values outcome" where
  "Values_Add v key val =
     (case v of
        None \<Rightarrow> Panics
      | Some m \<Rightarrow> Returns (Some (m(key \<mapsto> (case m key of None \<Rightarrow> [] | Some vs \<Rightarrow> vs) @ [val]))))"

text \<open>
  \<open>strings.Split(s, " ")\<close> for a one-byte separator: the pieces between the
  occurrences of the separator, one more than there are occurrences.
\<close>

fun Split :: "string \<Rightarrow> char \<Rightarrow> string list" where
  "Split [] sep = [[]]"
| "Split (c # cs) sep =
     (if c = sep then [] # Split cs sep
      else (case Split cs sep of [] \<Rightarrow> [[c]] | p # ps \<Rightarrow> (c # p) # ps))"

text \<open>
  The part of \<open>*http.Request\<close> the handlers read. \<open>Form\<close> is \<open>r.Form\<close> (nil until
  the request is parsed); \<open>params\<close> stands for the parameters the request carries in its
  URL query and body, which is what \<open>ParseForm\<close> puts into a nil \<open>r.Form\<close>;
  \<open>posted\<close> is the body parameters alone, as gin's \<open>c.PostForm\<close> reads them.
\<close>

record request =
  headers :: "string \<rightharpoonup> string"
  Form :: Values
  params :: "string \<rightharpoonup> string list"
  posted :: "string \<rightharpoonup> string list"

definition GetHeader :: "request \<Rightarrow> string \<Rightarrow> string" where
  "GetHeader r key = (case headers r key of None \<Rightarrow> [] | Some v \<Rightarrow> v)"

definition PostForm :: "request \<Rightarrow> string \<Rightarrow> string" where
  "PostForm r key = (case posted r key of None \<Rightarrow> [] | Some [] \<Rightarrow> [] | Some (x # _) \<Rightarrow> x)"

definition ParseForm :: "request \<Rightarrow> request" where
  "ParseForm r = (if Form r = None then r\<lparr>Form := Some (params r)\<rparr> else r)"

text \<open>
  \<open>ParseMultipartForm\<close> calls \<open>ParseForm\<close> when \<open>r.Form\<close> is nil. A multipart body
  is taken to be read with that first parse, so its fields count among \<open>params\<close>. A
  request whose form is set while its multipart body is still unread, to whose form
  \<open>net/http\<close> would append the fields of the body, has no counterpart in this record.
\<close>

definition ParseMultipartForm :: "request \<Rightarrow> request" where
  "ParseMultipartForm r = (if Form r = None then ParseForm r else r)"

section \<open>Package result: error constants and response envelopes\<close>

text \<open>
  The package \<open>result\<close> is not among the sources. Its error values and constructors
  are kept as symbols under the names the handlers use: \<open>Wrap e err\<close> is
  \<open>e.Wrap(err)\<close>, \<open>Failed e\<close> is \<open>result.Failed(e)\<close> and \<open>Success d\<close> is
  \<open>result.Success(d)\<close> for a \<open>gin.H\<close> map \<open>d\<close>.
\<close>

datatype LocalError =
    ParamError
  | InternalErr
  | AccessTokenErr
  | GET_USERINFO_FAIL
  | AUTH_ERROR
  | RefreshTokenErr
  | ClientErr
  | Wrap LocalError "go_error option"

text \<open>A value placed in a \<open>gin.H\<close>: a string, or a \<open>*string\<close> that may be nil.\<close>

datatype hvalue = Str string | StrPtr "string option"

datatype envelope = Failed LocalError | Success "string \<rightharpoonup> hvalue"

text \<open>
  What a handler does to the response writer, in order: \<open>c.JSON(code, obj)\<close>,
  \<open>w.Header().Set(k, v)\<close>, \<open>w.Write(json.Marshal(obj))\<close>, and the output of the
  OAuth library, which is opaque.
\<close>

datatype rwrite =
    JSON nat envelope
  | Header_Set string string
  | Write_json envelope
  | Library_output string

definition StatusOK :: nat where
  "StatusOK = 200"

definition StatusBadRequest :: nat where
  "StatusBadRequest = 400"

definition StatusInternalServerError :: nat where
  "StatusInternalServerError = 500"

section \<open>Token issuance and refresh\<close>

text \<open>
  \<open>srv.HandleTokenRequest(w, r)\<close> belongs to the OAuth library: it is a parameter,
  giving what the library wrote and the error it returned (\<open>None\<close> is nil).
\<close>

definition AccessToken ::
  "(request \<Rightarrow> rwrite list \<times> go_error option) \<Rightarrow> request \<Rightarrow> rwrite list" where
  "AccessToken HandleTokenRequest r =
     (let (w, err) = HandleTokenRequest r in
      if err \<noteq> None
      then w @ [JSON StatusInternalServerError (Failed (Wrap InternalErr err))]
      else w)"

definition RefreshToken ::
  "(request \<Rightarrow> rwrite list \<times> go_error option) \<Rightarrow> request \<Rightarrow> rwrite list" where
  "RefreshToken HandleTokenRequest r =
     (let (w, err) = HandleTokenRequest r in
      if err = None
      then w @ [JSON StatusInternalServerError (Failed (Wrap InternalErr err))]
      else w)"

section \<open>Client registration\<close>

text \<open>\<open>models.Client\<close> of the OAuth library, with the fields the handler sets.\<close>

record Client =
  ID :: string
  Secret :: string
  Domain :: string

text \<open>
  The collaborators of \<open>CreateClient\<close>: the generated identifier, the random secret
  (which may fail) and \<open>clientStore.Create\<close>, which returns its error and the store it
  leaves behind.
\<close>

record 's client_deps =
  GenerateUUID :: string
  GenerateRandomString :: "nat \<Rightarrow> go_error + string"
  Create :: "'s \<Rightarrow> Client \<Rightarrow> go_error option \<times> 's"

definition CreateClient :: "'s client_deps \<Rightarrow> request \<Rightarrow> 's \<Rightarrow> rwrite list \<times> 's" where
  "CreateClient d r clientStore =
     (let redirectURI = PostForm r ''redirect_uri'' in
      if redirectURI = [] then ([JSON StatusBadRequest (Failed ParamError)], clientStore)
      else
        let clientID = GenerateUUID d in
        case GenerateRandomString d 32 of
          Inl err \<Rightarrow> ([JSON StatusInternalServerError (Failed InternalErr)], clientStore)
        | Inr secret \<Rightarrow>
            (case Create d clientStore \<lparr>ID = clientID, Secret = secret, Domain = redirectURI\<rparr> of
               (Some cErr, clientStore') \<Rightarrow>
                 ([JSON StatusBadRequest (Failed InternalErr)], clientStore')
             | (None, clientStore') \<Rightarrow>
                 ([JSON StatusOK
                     (Success [''client_id'' \<mapsto> Str clientID, ''client_secret'' \<mapsto> Str secret])],
                  clientStore')))"

section \<open>Userinfo\<close>

text \<open>
  What the handlers read of the OAuth library's \<open>TokenInfo\<close> (\<open>GetClientID\<close>,
  \<open>GetUserID\<close>, \<open>GetScope\<close>) and of its manager \<open>srv.Manager\<close>. The manager's
  methods return a value or an error.
\<close>

record TokenInfo =
  ClientID :: string
  UserID :: string
  Scope :: string

record Manager =
  LoadAccessToken :: "string \<Rightarrow> go_error + TokenInfo"
  LoadRefreshToken :: "string \<Rightarrow> go_error + TokenInfo"
  GetClient :: "string \<Rightarrow> go_error + Client"

text \<open>\<open>model.User\<close>: every \<open>*string\<close> field is an option, \<open>None\<close> being nil.\<close>

record User =
  ID :: nat
  Uid :: "string option"
  Email :: "string option"
  Password :: "string option"
  QQId :: "string option"
  LarkId :: "string option"
  GithubId :: "string option"
  WechatId :: "string option"
  CreatedAt :: int
  IsDeleted :: bool

text \<open>The calls to collaborators that \<open>OauthUserInfo\<close> makes, in order.\<close>

datatype call = Call_LoadAccessToken string | Call_OauthUserInfo string

text \<open>
  \<open>service.OauthUserInfo\<close> is not among the sources; it is a parameter of the Go type
  \<open>func(string) (*model.User, error)\<close>. The handler indexes the split header at 1
  and dereferences \<open>user\<close> in both branches after the lookup, also in the error branch,
  where it logs \<open>user.Uid\<close>.
\<close>

definition OauthUserInfo ::
  "Manager \<Rightarrow> (string \<Rightarrow> User option \<times> go_error option) \<Rightarrow> request
     \<Rightarrow> (rwrite list \<times> call list) outcome" where
  "OauthUserInfo mg service_OauthUserInfo r =
     (let bearerToken = GetHeader r ''Authorization'' in
      if bearerToken = [] \<or> \<not> prefix ''Bearer '' bearerToken
      then Returns ([JSON StatusOK (Failed AccessTokenErr)], [])
      else
        (case Split bearerToken CHR '' '' of
           _ # accessToken # _ \<Rightarrow>
             (case LoadAccessToken mg accessToken of
                Inl err \<Rightarrow>
                  Returns ([JSON StatusOK (Failed AccessTokenErr)],
                           [Call_LoadAccessToken accessToken])
              | Inr ti \<Rightarrow>
                  (case service_OauthUserInfo (UserID ti) of
                     (user, Some err) \<Rightarrow>
                       (case user of
                          None \<Rightarrow> Panics
                        | Some u \<Rightarrow>
                            Returns ([JSON StatusOK (Failed GET_USERINFO_FAIL)],
                                     [Call_LoadAccessToken accessToken,
                                      Call_OauthUserInfo (UserID ti)]))
                   | (user, None) \<Rightarrow>
                       (case user of
                          None \<Rightarrow> Panics
                        | Some u \<Rightarrow>
                            Returns ([JSON StatusOK
                                        (Success [''email'' \<mapsto> StrPtr (Email u),
                                                  ''user_id'' \<mapsto> StrPtr (Uid u)])],
                                     [Call_LoadAccessToken accessToken,
                                      Call_OauthUserInfo (UserID ti)]))))
         | _ \<Rightarrow> Panics))"

section \<open>Client-credential resolver\<close>

definition clientInfoHandler ::
  "Manager \<Rightarrow> request \<Rightarrow> string \<times> string \<times> LocalError option" where
  "clientInfoHandler mg r0 =
     (let r = ParseForm (ParseMultipartForm r0) in
      if Values_Get (Form r) ''grant_type'' = ''refresh_token'' then
        (case LoadRefreshToken mg (Values_Get (Form r) ''refresh_token'') of
           Inl err \<Rightarrow> ([], [], Some RefreshTokenErr)
         | Inr ti \<Rightarrow>
             let clientID = ClientID ti in
             if clientID = [] then ([], [], Some ClientErr)
             else
               (case GetClient mg clientID of
                  Inl err \<Rightarrow> ([], [], Some ClientErr)
                | Inr cli \<Rightarrow>
                    let clientSecret = Secret cli in
                    if clientSecret = [] then ([], [], Some ClientErr)
                    else (clientID, clientSecret, None)))
      else
        let clientID = Values_Get (Form r) ''client_id'' in
        if clientID = [] then ([], [], Some ClientErr)
        else
          let clientSecret = Values_Get (Form r) ''client_secret'' in
          if clientSecret = [] then ([], [], Some ClientErr)
          else (clientID, clientSecret, None))"

section \<open>Sessions, the user-authorization callback and the authorization redirect\<close>

text \<open>
  A session maps keys to the values set under them; the only value this code sets is a
  \<open>url.Values\<close>. The handlers are given the persisted session; \<open>session.Start\<close>
  hands out a working copy of it or fails, \<open>Set\<close> and \<open>Delete\<close> change the copy and
  \<open>Save\<close> persists it. A handler returns the persisted session it leaves behind.
\<close>

type_synonym session = "string \<rightharpoonup> Values"

text \<open>
  The collaborators of the callback: \<open>session.Start\<close>, \<open>util.GetUsername\<close> (whose
  two results the source both tests), \<open>model.LoginTokenKey\<close> and
  \<open>model.Rdb.Get(...).Result()\<close>.
\<close>

record auth_deps =
  session_Start :: "session \<Rightarrow> go_error + session"
  GetUsername :: "string \<Rightarrow> string \<times> go_error option"
  LoginTokenKey :: "string \<Rightarrow> string"
  Rdb_Get :: "string \<Rightarrow> go_error + string"

text \<open>
  What the callback leaves: its writes to \<open>w\<close>, the request (whose form it parses),
  the persisted session, and its two named results \<open>userID\<close> and \<open>err\<close>.
\<close>

record auth_result =
  w_out :: "rwrite list"
  r_out :: request
  session_out :: session
  userID :: string
  err_out :: "go_error option"

text \<open>
  The block the source repeats at each of its four checks (lines 252-263, 268-279,
  284-295, 298-309), ending in a bare \<open>return\<close>: \<open>userID\<close> is still empty and
  \<open>err\<close> is what the last assignment left in it.
\<close>

definition unauthenticated :: "request \<Rightarrow> session \<Rightarrow> go_error option \<Rightarrow> auth_result" where
  "unauthenticated r0 store0 err =
     (let r = (if Form r0 = None then ParseForm r0 else r0);
          store = store0(''ReturnUri'' \<mapsto> Form r)
      in \<lparr>w_out = [Header_Set ''Content-Type'' ''application/json'',
                    Write_json (Failed AUTH_ERROR)],
          r_out = r, session_out = store, userID = [], err_out = err\<rparr>)"

definition userAuthorizeHandler :: "auth_deps \<Rightarrow> request \<Rightarrow> session \<Rightarrow> auth_result" where
  "userAuthorizeHandler d r0 persisted =
     (case session_Start d persisted of
        Inl e \<Rightarrow> \<lparr>w_out = [], r_out = r0, session_out = persisted, userID = [], err_out = Some e\<rparr>
      | Inr store \<Rightarrow>
          let r = ParseForm (ParseMultipartForm r0);
              token = Values_Get (Form r) ''token''
          in
          if token = [] then unauthenticated r store None
          else
            let (username, err) = GetUsername d token in
            if err \<noteq> None \<or> username = [] then unauthenticated r store err
            else
              (case Rdb_Get d (LoginTokenKey d username) of
                 Inl e \<Rightarrow> unauthenticated r store (Some e)
               | Inr rToken \<Rightarrow>
                   if rToken \<noteq> token then unauthenticated r store None
                   else \<lparr>w_out = [], r_out = r, session_out = persisted,
                         userID = username, err_out = None\<rparr>))"

text \<open>
  \<open>srv.HandleAuthorizeRequest(w, r)\<close> belongs to the OAuth library: a parameter that,
  given the request and the persisted session, gives what the library wrote, the
  persisted session it leaves and its error. The type assertion on the stored value
  cannot fail, since a session holds only \<open>url.Values\<close>; \<open>form.Add\<close> panics on nil.
\<close>

definition Authorize ::
  "auth_deps \<Rightarrow> (request \<Rightarrow> session \<Rightarrow> rwrite list \<times> session \<times> go_error option)
     \<Rightarrow> request \<Rightarrow> session \<Rightarrow> (rwrite list \<times> session) outcome" where
  "Authorize d HandleAuthorizeRequest r0 persisted =
     (let r = ParseForm (ParseMultipartForm r0) in
      case session_Start d persisted of
        Inl err \<Rightarrow>
          Returns ([JSON StatusInternalServerError (Failed (Wrap InternalErr (Some err)))],
                   persisted)
      | Inr store \<Rightarrow>
          (case (case store ''ReturnUri'' of
                   None \<Rightarrow> Returns None
                 | Some v \<Rightarrow> Values_Add v ''token'' (Values_Get (Form r) ''token'')) of
             Panics \<Rightarrow> Panics
           | Returns form \<Rightarrow>
               let r' = r\<lparr>Form := form\<rparr>;
                   saved = store(''ReturnUri'' := None);
                   (w, left, err) = HandleAuthorizeRequest r' saved
               in
               if err \<noteq> None
               then Returns (w @ [JSON StatusInternalServerError (Failed (Wrap InternalErr err))],
                             left)
               else Returns (w, left)))"

text \<open>
  \<open>InitServer\<close> registers \<open>userAuthorizeHandler\<close> with the library
  (\<open>srv.SetUserAuthorizationHandler\<close>), which calls it while it handles an
  authorization request. This delegate does that and nothing else.
\<close>

definition calls_userAuthorizeHandler ::
  "auth_deps \<Rightarrow> request \<Rightarrow> session \<Rightarrow> rwrite list \<times> session \<times> go_error option" where
  "calls_userAuthorizeHandler d r persisted =
     (let a = userAuthorizeHandler d r persisted in (w_out a, session_out a, err_out a))"

section \<open>Package model: users and tickets\<close>

text \<open>
  The queries the package sends to \<open>Db\<close>: \<open>Where("email = ?", x).First(&user)\<close>,
  \<open>Where("uid = ?", x).First(&user)\<close> and \<open>First(&user)\<close> on a preset record.
  \<open>Db\<close> is a parameter answering a query with the record found or with an error; on
  an error gorm leaves \<open>user\<close> as it was.
\<close>

datatype query = Where_email string | Where_uid string | First_of User

definition zero_User :: User where
  "zero_User = \<lparr>ID = 0, Uid = None, Email = None, Password = None, QQId = None, LarkId = None,
                GithubId = None, WechatId = None, CreatedAt = 0, IsDeleted = False\<rparr>"

text \<open>
  \<open>regexp.MatchString("@", username)\<close>: the pattern compiles, so the error is nil and
  the result says whether the name contains the character.
\<close>

definition MatchString_at :: "string \<Rightarrow> go_error + bool" where
  "MatchString_at username = Inr (CHR ''@'' \<in> set username)"

definition CheckPassword ::
  "(query \<Rightarrow> go_error + User) \<Rightarrow> string \<Rightarrow> string \<Rightarrow> (bool \<times> go_error option) outcome" where
  "CheckPassword Db username password =
     (case MatchString_at username of
        Inl err2 \<Rightarrow> Returns (False, Some err2)
      | Inr matched \<Rightarrow>
          let found = (if matched then Db (Where_email username) else Db (Where_uid username));
              user = (case found of Inl e \<Rightarrow> zero_User | Inr u \<Rightarrow> u);
              err = (case found of Inl e \<Rightarrow> Some e | Inr u \<Rightarrow> None);
              exist = (if err \<noteq> None \<and> err = Some ErrRecordNotFound then False else True)
          in
          (case Password user of
             None \<Rightarrow> Panics
           | Some stored \<Rightarrow> Returns (if stored \<noteq> password then False else exist, err)))"

text \<open>
  Durations are nanoseconds, as \<open>time.Duration\<close>. The key-value store \<open>Rdb\<close> maps a
  key to its value and time to live; the result of \<open>Rdb.Set\<close> is discarded by the
  source. \<open>util.GenerateToken\<close> is a parameter; its error is overwritten by the
  \<open>nil\<close> the function returns.
\<close>

definition Second :: int where
  "Second = 1000000000"

definition Minute :: int where
  "Minute = 60 * Second"

type_synonym rdb = "string \<rightharpoonup> string \<times> int"

definition VerifyAccount ::
  "(query \<Rightarrow> go_error + User) \<Rightarrow> (string \<Rightarrow> string \<times> go_error option) \<Rightarrow> string \<Rightarrow> rdb
     \<Rightarrow> (bool \<times> string \<times> go_error option) \<times> rdb" where
  "VerifyAccount Db GenerateToken username Rdb =
     (case Db (Where_email username) of
        Inl err \<Rightarrow>
          if err = ErrRecordNotFound then
            let isExist = False;
                ticket = fst (GenerateToken username)
            in ((isExist, ticket, None), Rdb(''TICKET:'' @ username \<mapsto> (ticket, Minute * 5)))
          else ((True, [], Some err), Rdb)
      | Inr user \<Rightarrow> ((True, [], None), Rdb))"

definition Error_string :: "go_error \<Rightarrow> string" where
  "Error_string e = (case e of ErrRecordNotFound \<Rightarrow> ''record not found'' | ExternalError m \<Rightarrow> m)"

definition UserInfo ::
  "(query \<Rightarrow> go_error + User) \<Rightarrow> string \<Rightarrow> User option \<times> go_error option" where
  "UserInfo Db username =
     (case Db (First_of (zero_User\<lparr>Uid := Some username\<rparr>)) of
        Inl err \<Rightarrow>
          (None, Some (ExternalError
             (Error_string err @ '': User ['' @ username @ ''] Not Exist'' @ [CHR 0x0A])))
      | Inr user \<Rightarrow> (Some user, None))"

section \<open>Example values\<close>

text \<open>A request as it arrives, not yet parsed, with its parameters in the body.\<close>

definition unparsed_request :: "(string \<rightharpoonup> string) \<Rightarrow> (string \<rightharpoonup> string list) \<Rightarrow> request" where
  "unparsed_request hs ps = \<lparr>headers = hs, Form = None, params = ps, posted = ps\<rparr>"

definition alice :: User where
  "alice = zero_User\<lparr>ID := 1, Uid := Some ''B21010101'', Email := Some ''alice@example.org'',
                      Password := Some ''$2a$10$hash''\<rparr>"

text \<open>
  A manager that knows one access token, four refresh tokens (a good one, one without a
  client id, one of a client that is gone, one of a client without a secret) and two
  clients.
\<close>

definition example_Manager :: Manager where
  "example_Manager =
     \<lparr>LoadAccessToken =
        (\<lambda>t. if t = ''at-1''
             then Inr \<lparr>ClientID = ''c1'', UserID = ''B21010101'', Scope = ''all''\<rparr>
             else Inl (ExternalError ''invalid access token'')),
      LoadRefreshToken =
        (\<lambda>t. if t = ''rt-ok''
             then Inr \<lparr>ClientID = ''c1'', UserID = ''B21010101'', Scope = ''all''\<rparr>
             else if t = ''rt-noclient''
             then Inr \<lparr>ClientID = [], UserID = ''B21010101'', Scope = ''all''\<rparr>
             else if t = ''rt-gone''
             then Inr \<lparr>ClientID = ''c0'', UserID = ''B21010101'', Scope = ''all''\<rparr>
             else if t = ''rt-nosecret''
             then Inr \<lparr>ClientID = ''c2'', UserID = ''B21010101'', Scope = ''all''\<rparr>
             else Inl (ExternalError ''invalid refresh token'')),
      GetClient =
        (\<lambda>c. if c = ''c1''
             then Inr \<lparr>Client.ID = ''c1'', Secret = ''s3cr3t'', Domain = ''https://app.example.org''\<rparr>
             else if c = ''c2''
             then Inr \<lparr>Client.ID = ''c2'', Secret = [], Domain = ''https://app.example.org''\<rparr>
             else Inl (ExternalError ''client not found''))\<rparr>"

definition refresh_request :: "string \<Rightarrow> request" where
  "refresh_request t =
     unparsed_request Map.empty [''grant_type'' \<mapsto> [''refresh_token''], ''refresh_token'' \<mapsto> [t]]"

text \<open>
  Collaborators of the callback: the session store is up or down; the token
  \<open>jwt-alice\<close> names alice, \<open>jwt-bob\<close> names bob, \<open>jwt-anon\<close> names nobody, any
  other token is refused; Redis holds alice's login token and a newer one for bob.
\<close>

definition example_deps :: "bool \<Rightarrow> auth_deps" where
  "example_deps up =
     \<lparr>session_Start =
        (\<lambda>p. if up then Inr p else Inl (ExternalError ''session store unavailable'')),
      GetUsername =
        (\<lambda>t. if t = ''jwt-alice'' then (''alice'', None)
             else if t = ''jwt-bob'' then (''bob'', None)
             else if t = ''jwt-carol'' then (''carol'', None)
             else if t = ''jwt-anon'' then ([], None)
             else ([], Some (ExternalError ''token is malformed''))),
      LoginTokenKey = (\<lambda>u. ''TOKEN:'' @ u),
      Rdb_Get =
        (\<lambda>k. if k = ''TOKEN:alice'' then Inr ''jwt-alice''
             else if k = ''TOKEN:bob'' then Inr ''jwt-bob-2''
             else Inl (ExternalError ''redis: nil''))\<rparr>"

text \<open>
  An authorization request without a token and one with a token, and a session that
  holds the parameters of an earlier authorization request.
\<close>

definition authorize_params :: "string \<rightharpoonup> string list" where
  "authorize_params =
     [''client_id'' \<mapsto> [''c1''], ''redirect_uri'' \<mapsto> [''https://app.example.org/cb''],
      ''response_type'' \<mapsto> [''code'']]"

definition anonymous_request :: request where
  "anonymous_request = unparsed_request Map.empty authorize_params"

definition token_request :: "string \<Rightarrow> request" where
  "token_request t = unparsed_request Map.empty (authorize_params(''token'' \<mapsto> [t]))"

definition held_session :: session where
  "held_session = [''ReturnUri'' \<mapsto> Some authorize_params]"

text \<open>
  A stand-in for the library's handler that records the form value of
  \<open>client_id\<close> and \<open>token\<close> it was given and whether the session it was given still
  held the entry, and leaves the session alone.
\<close>

definition recording_library :: "request \<Rightarrow> session \<Rightarrow> rwrite list \<times> session \<times> go_error option" where
  "recording_library r s =
     ([Library_output (Values_Get (Form r) ''client_id''),
       Library_output (Values_Get (Form r) ''token''),
       Library_output (if s ''ReturnUri'' = None then ''cleared'' else ''held'')],
      s, None)"

section \<open>Properties\<close>

subsection \<open>Parsing and splitting\<close>

lemma Form_ParseForm: "Form (ParseForm r) \<noteq> None"
  by (simp add: ParseForm_def)

lemma ParseForm_ParseMultipartForm: "ParseForm (ParseMultipartForm r) = ParseForm r"
  by (simp add: ParseForm_def ParseMultipartForm_def)

lemma Split_not_Nil: "Split s sep \<noteq> []"
  by (cases s) (auto split: list.splits)

text \<open>
  After the prefix check the header has at least one space, so index 1 of the split
  exists: the handler's indexing cannot go out of range.
\<close>

lemma Split_prefix_Bearer:
  assumes "prefix ''Bearer '' s"
  shows "\<exists>t rest. Split s CHR '' '' = ''Bearer'' # t # rest"
proof -
  from assms obtain z where s: "s = ''Bearer '' @ z"
    by (auto simp: prefix_def)
  have "Split z CHR '' '' \<noteq> []"
    by (rule Split_not_Nil)
  then obtain t rest where "Split z CHR '' '' = t # rest"
    by (cases "Split z CHR '' ''") auto
  with s show ?thesis by simp
qed

lemma unauthenticated_parsed:
  "Form r \<noteq> None \<Longrightarrow>
     unauthenticated r store err =
       \<lparr>w_out = [Header_Set ''Content-Type'' ''application/json'', Write_json (Failed AUTH_ERROR)],
        r_out = r, session_out = store(''ReturnUri'' \<mapsto> Form r), userID = [], err_out = err\<rparr>"
  by (auto simp add: unauthenticated_def)

subsection \<open>The claims\<close>

text \<open>The sibling handler reports the library's error, and only then.\<close>

lemma AccessToken_reports_on_error:
  "AccessToken HandleTokenRequest r =
     fst (HandleTokenRequest r) @
       (case snd (HandleTokenRequest r) of
          None \<Rightarrow> []
        | Some e \<Rightarrow> [JSON 500 (Failed (Wrap InternalErr (Some e)))])"
  by (simp add: AccessToken_def StatusInternalServerError_def split: prod.splits option.splits)

text \<open>
  C1. RefreshToken tests the library's error the other way round from AccessToken:
  when \<open>HandleTokenRequest\<close> returns a nil error, RefreshToken adds the call
  \<open>c.JSON(500, Failed(InternalErr.Wrap(nil)))\<close> after whatever the library wrote, and
  when the library returns an error, RefreshToken writes nothing of its own.
\<close>

theorem RefreshToken_reports_on_success:
  "(snd (HandleTokenRequest r) = None \<longrightarrow>
      RefreshToken HandleTokenRequest r =
        fst (HandleTokenRequest r) @ [JSON 500 (Failed (Wrap InternalErr None))])
   \<and> (snd (HandleTokenRequest r) \<noteq> None \<longrightarrow>
      RefreshToken HandleTokenRequest r = fst (HandleTokenRequest r))"
  by (simp add: RefreshToken_def StatusInternalServerError_def split: prod.splits)

theorem RefreshToken_reports_on_success_witness:
  "snd ((\<lambda>r. ([Library_output ''token''], None)) (refresh_request ''rt-ok'')) = None
   \<and> RefreshToken (\<lambda>r. ([Library_output ''token''], None)) (refresh_request ''rt-ok'')
      = [Library_output ''token'', JSON 500 (Failed (Wrap InternalErr None))]
   \<and> snd ((\<lambda>r. ([]::rwrite list, Some (ExternalError ''invalid_grant'')))
            (refresh_request ''rt-lost'')) \<noteq> None
   \<and> RefreshToken (\<lambda>r. ([], Some (ExternalError ''invalid_grant''))) (refresh_request ''rt-lost'')
      = []"
  using RefreshToken_reports_on_success
          [of "\<lambda>r. ([Library_output ''token''], None)" "refresh_request ''rt-ok''"]
        RefreshToken_reports_on_success
          [of "\<lambda>r. ([], Some (ExternalError ''invalid_grant''))" "refresh_request ''rt-lost''"]
  by simp

text \<open>
  C4. An empty \<open>redirect_uri\<close> is answered with \<open>c.JSON(400, Failed(ParamError))\<close>
  and the client store is returned as it was, whatever the generators and
  \<open>clientStore.Create\<close> would have done.
\<close>

theorem CreateClient_empty_redirect_uri:
  "PostForm r ''redirect_uri'' = [] \<Longrightarrow>
     CreateClient d r clientStore = ([JSON 400 (Failed ParamError)], clientStore)"
  by (simp add: CreateClient_def StatusBadRequest_def)

theorem CreateClient_empty_redirect_uri_witness:
  "PostForm (unparsed_request Map.empty [''redirect_uri'' \<mapsto> [[]]]) ''redirect_uri'' = []
   \<and> CreateClient
        \<lparr>GenerateUUID = ''6f1c'', GenerateRandomString = (\<lambda>n. Inr ''s3cr3t''),
         Create = (\<lambda>s c. (None, c # s))\<rparr>
        (unparsed_request Map.empty [''redirect_uri'' \<mapsto> [[]]]) []
      = ([JSON 400 (Failed ParamError)], [])"
proof -
  have h: "PostForm (unparsed_request Map.empty [''redirect_uri'' \<mapsto> [[]]]) ''redirect_uri'' = []"
    by (simp add: PostForm_def unparsed_request_def)
  show ?thesis
    using h CreateClient_empty_redirect_uri [OF h] by simp
qed

text \<open>
  C5. Without an \<open>Authorization\<close> header that starts with \<open>Bearer \<close>, the handler
  answers \<open>Failed(AccessTokenErr)\<close> and has called neither \<open>LoadAccessToken\<close> nor
  \<open>service.OauthUserInfo\<close>.
\<close>

theorem OauthUserInfo_bad_header:
  "GetHeader r ''Authorization'' = [] \<or> \<not> prefix ''Bearer '' (GetHeader r ''Authorization'') \<Longrightarrow>
     OauthUserInfo mg service_OauthUserInfo r
       = Returns ([JSON 200 (Failed AccessTokenErr)], [])"
  by (auto simp add: OauthUserInfo_def StatusOK_def)

theorem OauthUserInfo_bad_header_witness:
  "GetHeader (unparsed_request Map.empty Map.empty) ''Authorization'' = []
   \<and> OauthUserInfo example_Manager (\<lambda>uid. (Some alice, None))
        (unparsed_request Map.empty Map.empty)
      = Returns ([JSON 200 (Failed AccessTokenErr)], [])
   \<and> \<not> prefix ''Bearer '' (GetHeader (unparsed_request [''Authorization'' \<mapsto> ''Basic at-1''] Map.empty)
                              ''Authorization'')
   \<and> OauthUserInfo example_Manager (\<lambda>uid. (Some alice, None))
        (unparsed_request [''Authorization'' \<mapsto> ''Basic at-1''] Map.empty)
      = Returns ([JSON 200 (Failed AccessTokenErr)], [])"
proof -
  have h1: "GetHeader (unparsed_request Map.empty Map.empty) ''Authorization'' = []"
    by (simp add: GetHeader_def unparsed_request_def)
  have h2: "\<not> prefix ''Bearer '' (GetHeader (unparsed_request [''Authorization'' \<mapsto> ''Basic at-1''] Map.empty)
                              ''Authorization'')"
    by (simp add: GetHeader_def unparsed_request_def)
  show ?thesis
    using h1 h2 OauthUserInfo_bad_header [OF disjI1, OF h1] OauthUserInfo_bad_header [OF disjI2, OF h2]
    by simp
qed

text \<open>
  C6. With a header that starts with \<open>Bearer \<close>, when the token at index 1 of the split
  header loads and \<open>service.OauthUserInfo\<close> returns a user and no error for the token's
  user id, the handler answers \<open>Success\<close> with a map of exactly two keys: \<open>email\<close>
  holding the user's \<open>Email\<close> and \<open>user_id\<close> holding the user's \<open>Uid\<close>.
\<close>

theorem OauthUserInfo_existing_user:
  assumes "prefix ''Bearer '' (GetHeader r ''Authorization'')"
    and "LoadAccessToken mg (Split (GetHeader r ''Authorization'') CHR '' '' ! 1) = Inr ti"
    and "service_OauthUserInfo (UserID ti) = (Some u, None)"
  shows "\<exists>data calls.
           OauthUserInfo mg service_OauthUserInfo r = Returns ([JSON 200 (Success data)], calls)
         \<and> data = [''email'' \<mapsto> StrPtr (Email u), ''user_id'' \<mapsto> StrPtr (Uid u)]
         \<and> dom data = {''email'', ''user_id''}"
proof -
  obtain t rest where sp: "Split (GetHeader r ''Authorization'') CHR '' '' = ''Bearer'' # t # rest"
    using Split_prefix_Bearer [OF assms(1)] by blast
  have ne: "GetHeader r ''Authorization'' \<noteq> []"
    using assms(1) by auto
  have "LoadAccessToken mg t = Inr ti"
    using assms(2) sp by simp
  then show ?thesis
    using assms(1,3) ne sp by (auto simp add: OauthUserInfo_def StatusOK_def)
qed

theorem OauthUserInfo_existing_user_witness:
  "prefix ''Bearer '' (GetHeader (unparsed_request [''Authorization'' \<mapsto> ''Bearer at-1''] Map.empty)
                         ''Authorization'')
   \<and> LoadAccessToken example_Manager
        (Split (GetHeader (unparsed_request [''Authorization'' \<mapsto> ''Bearer at-1''] Map.empty)
                  ''Authorization'') CHR '' '' ! 1)
      = Inr \<lparr>ClientID = ''c1'', UserID = ''B21010101'', Scope = ''all''\<rparr>
   \<and> (\<exists>calls.
        OauthUserInfo example_Manager (\<lambda>uid. if uid = ''B21010101'' then (Some alice, None) else (None, None))
          (unparsed_request [''Authorization'' \<mapsto> ''Bearer at-1''] Map.empty)
        = Returns ([JSON 200 (Success [''email'' \<mapsto> StrPtr (Some ''alice@example.org''),
                                       ''user_id'' \<mapsto> StrPtr (Some ''B21010101'')])], calls))"
proof -
  let ?r = "unparsed_request [''Authorization'' \<mapsto> ''Bearer at-1''] Map.empty"
  let ?svc = "\<lambda>uid. if uid = ''B21010101'' then (Some alice, None) else (None, None)"
  let ?ti = "\<lparr>ClientID = ''c1'', UserID = ''B21010101'', Scope = ''all''\<rparr>"
  have h1: "prefix ''Bearer '' (GetHeader ?r ''Authorization'')"
    by (simp add: GetHeader_def unparsed_request_def)
  have h2: "LoadAccessToken example_Manager (Split (GetHeader ?r ''Authorization'') CHR '' '' ! 1) = Inr ?ti"
    by (simp add: GetHeader_def unparsed_request_def example_Manager_def)
  have h3: "?svc (UserID ?ti) = (Some alice, None)"
    by simp
  show ?thesis
    using h1 h2
      OauthUserInfo_existing_user
        [where r = "?r" and mg = example_Manager and ti = "?ti"
           and service_OauthUserInfo = "?svc" and u = alice, OF h1 h2 h3]
    by (auto simp add: alice_def)
qed

text \<open>
  C8. When the lookup by email finds no record, \<open>VerifyAccount\<close> returns
  \<open>(false, ticket, nil)\<close> for the ticket \<open>util.GenerateToken\<close> gave, and has set
  \<open>"TICKET:" + username\<close> to that ticket with a time to live of 300 seconds.
\<close>

theorem VerifyAccount_issues_ticket:
  "Db (Where_email username) = Inl ErrRecordNotFound \<Longrightarrow>
     VerifyAccount Db GenerateToken username Rdb
       = ((False, fst (GenerateToken username), None),
          Rdb(''TICKET:'' @ username \<mapsto> (fst (GenerateToken username), 300 * Second)))"
  by (simp add: VerifyAccount_def Minute_def Let_def)

theorem VerifyAccount_issues_ticket_witness:
  "(\<lambda>q. Inl ErrRecordNotFound :: go_error + User) (Where_email ''new@example.org'') = Inl ErrRecordNotFound
   \<and> fst (VerifyAccount (\<lambda>q. Inl ErrRecordNotFound) (\<lambda>u. (''tk-'' @ u, None)) ''new@example.org'' Map.empty)
      = (False, ''tk-new@example.org'', None)
   \<and> snd (VerifyAccount (\<lambda>q. Inl ErrRecordNotFound) (\<lambda>u. (''tk-'' @ u, None)) ''new@example.org'' Map.empty)
        ''TICKET:new@example.org''
      = Some (''tk-new@example.org'', 300000000000)"
  using VerifyAccount_issues_ticket
          [of "\<lambda>q. Inl ErrRecordNotFound" "''new@example.org''" "\<lambda>u. (''tk-'' @ u, None)" Map.empty]
  by (simp add: Second_def)

text \<open>
  C3. For a request whose parsed form has \<open>grant_type = refresh_token\<close>, the resolver
  returns a non-nil error when the refresh token does not load, when the token's client
  id is empty, when the client does not load and when the client's secret is empty;
  otherwise it returns the token's client id and the client's secret with a nil error.
  The resolver has no panicking operation: its result is a plain triple.
\<close>

theorem clientInfoHandler_refresh_token:
  assumes "Values_Get (Form (ParseForm (ParseMultipartForm r))) ''grant_type'' = ''refresh_token''"
    and "refresh = Values_Get (Form (ParseForm (ParseMultipartForm r))) ''refresh_token''"
  shows "(\<forall>e. LoadRefreshToken mg refresh = Inl e \<longrightarrow>
            snd (snd (clientInfoHandler mg r)) \<noteq> None)
       \<and> (\<forall>ti. LoadRefreshToken mg refresh = Inr ti \<longrightarrow>
            (ClientID ti = [] \<longrightarrow> snd (snd (clientInfoHandler mg r)) \<noteq> None)
          \<and> (\<forall>e. GetClient mg (ClientID ti) = Inl e \<longrightarrow>
                snd (snd (clientInfoHandler mg r)) \<noteq> None)
          \<and> (\<forall>cli. GetClient mg (ClientID ti) = Inr cli \<longrightarrow>
                (Secret cli = [] \<longrightarrow> snd (snd (clientInfoHandler mg r)) \<noteq> None)
              \<and> (ClientID ti \<noteq> [] \<and> Secret cli \<noteq> [] \<longrightarrow>
                   clientInfoHandler mg r = (ClientID ti, Secret cli, None))))"
  using assms by (auto simp add: clientInfoHandler_def Let_def)

lemma refresh_request_form:
  "Values_Get (Form (ParseForm (ParseMultipartForm (refresh_request t)))) ''grant_type'' = ''refresh_token''"
  "Values_Get (Form (ParseForm (ParseMultipartForm (refresh_request t)))) ''refresh_token'' = t"
  by (simp_all add: refresh_request_def unparsed_request_def ParseForm_def ParseMultipartForm_def
        Values_Get_def)

theorem clientInfoHandler_refresh_token_witness:
  "Values_Get (Form (ParseForm (ParseMultipartForm (refresh_request ''rt-ok'')))) ''grant_type''
     = ''refresh_token''
   \<and> clientInfoHandler example_Manager (refresh_request ''rt-ok'') = (''c1'', ''s3cr3t'', None)
   \<and> LoadRefreshToken example_Manager ''rt-lost'' = Inl (ExternalError ''invalid refresh token'')
   \<and> snd (snd (clientInfoHandler example_Manager (refresh_request ''rt-lost''))) \<noteq> None
   \<and> ClientID (projr (LoadRefreshToken example_Manager ''rt-noclient'')) = []
   \<and> snd (snd (clientInfoHandler example_Manager (refresh_request ''rt-noclient''))) \<noteq> None
   \<and> GetClient example_Manager ''c0'' = Inl (ExternalError ''client not found'')
   \<and> snd (snd (clientInfoHandler example_Manager (refresh_request ''rt-gone''))) \<noteq> None
   \<and> Secret (projr (GetClient example_Manager ''c2'')) = []
   \<and> snd (snd (clientInfoHandler example_Manager (refresh_request ''rt-nosecret''))) \<noteq> None"
proof -
  note at = clientInfoHandler_refresh_token [where mg = example_Manager]
  show ?thesis
    using
      at [OF refresh_request_form(1) [of "''rt-ok''"] refresh_request_form(2) [of "''rt-ok''", symmetric]]
      at [OF refresh_request_form(1) [of "''rt-lost''"] refresh_request_form(2) [of "''rt-lost''", symmetric]]
      at [OF refresh_request_form(1) [of "''rt-noclient''"]
             refresh_request_form(2) [of "''rt-noclient''", symmetric]]
      at [OF refresh_request_form(1) [of "''rt-gone''"] refresh_request_form(2) [of "''rt-gone''", symmetric]]
      at [OF refresh_request_form(1) [of "''rt-nosecret''"]
             refresh_request_form(2) [of "''rt-nosecret''", symmetric]]
    by (simp add: example_Manager_def refresh_request_form)
qed

text \<open>
  C2, as stated, fails where \<open>session.Start\<close> fails: the callback returns the session
  error at once (lines 241-245), before it looks at the token. For a request without a
  token and a session store that is down, nothing is stored and nothing is written.
\<close>

theorem userAuthorizeHandler_session_down_counterexample:
  "Values_Get (Form (ParseForm (ParseMultipartForm anonymous_request))) ''token'' = []
   \<and> session_out (userAuthorizeHandler (example_deps False) anonymous_request Map.empty)
        ''ReturnUri'' = None
   \<and> w_out (userAuthorizeHandler (example_deps False) anonymous_request Map.empty) = []
   \<and> err_out (userAuthorizeHandler (example_deps False) anonymous_request Map.empty)
      = Some (ExternalError ''session store unavailable'')"
  by (simp add: userAuthorizeHandler_def example_deps_def anonymous_request_def
        authorize_params_def unparsed_request_def ParseForm_def ParseMultipartForm_def
        Values_Get_def)

text \<open>
  C2, amended. When the session starts and authentication fails at one of the four
  checks (the parsed form has no token; \<open>util.GetUsername\<close> returns an error or an empty
  name; the login-token lookup fails; the stored token differs from the presented one),
  the callback sets \<open>ReturnUri\<close> to the parsed form, which is never nil, saves the
  session, writes the \<open>Failed(AUTH_ERROR)\<close> envelope and returns an empty user id.
\<close>

theorem userAuthorizeHandler_unauthenticated:
  assumes "session_Start d persisted = Inr store"
    and "token = Values_Get (Form (ParseForm (ParseMultipartForm r))) ''token''"
    and "token = []
         \<or> snd (GetUsername d token) \<noteq> None
         \<or> fst (GetUsername d token) = []
         \<or> (\<exists>e. Rdb_Get d (LoginTokenKey d (fst (GetUsername d token))) = Inl e)
         \<or> (\<exists>t. Rdb_Get d (LoginTokenKey d (fst (GetUsername d token))) = Inr t \<and> t \<noteq> token)"
  shows "session_out (userAuthorizeHandler d r persisted)
           = store(''ReturnUri'' \<mapsto> Form (ParseForm (ParseMultipartForm r)))
       \<and> Form (ParseForm (ParseMultipartForm r))
           = Some (case Form r of None \<Rightarrow> params r | Some m \<Rightarrow> m)
       \<and> w_out (userAuthorizeHandler d r persisted)
           = [Header_Set ''Content-Type'' ''application/json'', Write_json (Failed AUTH_ERROR)]
       \<and> userID (userAuthorizeHandler d r persisted) = []"
proof -
  let ?r = "ParseForm (ParseMultipartForm r)"
  have parsed: "Form ?r \<noteq> None"
    by (simp add: ParseForm_ParseMultipartForm Form_ParseForm)
  have form: "Form ?r = Some (case Form r of None \<Rightarrow> params r | Some m \<Rightarrow> m)"
    by (cases "Form r") (simp_all add: ParseForm_def ParseMultipartForm_def)
  have "\<exists>err. userAuthorizeHandler d r persisted = unauthenticated ?r store err"
    using assms
    by (auto simp add: userAuthorizeHandler_def Let_def split: prod.splits sum.splits)
  then obtain err where "userAuthorizeHandler d r persisted = unauthenticated ?r store err" ..
  then show ?thesis
    using form by (simp add: unauthenticated_parsed [OF parsed])
qed

lemma token_request_token:
  "Values_Get (Form (ParseForm (ParseMultipartForm (token_request t)))) ''token'' = t"
  by (simp add: token_request_def unparsed_request_def ParseForm_def ParseMultipartForm_def
        Values_Get_def)

lemma anonymous_request_token:
  "Values_Get (Form (ParseForm (ParseMultipartForm anonymous_request))) ''token'' = []"
  by (simp add: anonymous_request_def authorize_params_def unparsed_request_def ParseForm_def
        ParseMultipartForm_def Values_Get_def)

lemma example_deps_Start: "session_Start (example_deps True) p = Inr p"
  by (simp add: example_deps_def)

theorem userAuthorizeHandler_unauthenticated_witness:
  "session_Start (example_deps True) Map.empty = Inr Map.empty
   \<and> session_out (userAuthorizeHandler (example_deps True) anonymous_request Map.empty) ''ReturnUri''
      = Some (Form (ParseForm (ParseMultipartForm anonymous_request)))
   \<and> w_out (userAuthorizeHandler (example_deps True) anonymous_request Map.empty)
      = [Header_Set ''Content-Type'' ''application/json'', Write_json (Failed AUTH_ERROR)]
   \<and> snd (GetUsername (example_deps True) ''garbage'') = Some (ExternalError ''token is malformed'')
   \<and> session_out (userAuthorizeHandler (example_deps True) (token_request ''garbage'') Map.empty)
        ''ReturnUri''
      = Some (Form (ParseForm (ParseMultipartForm (token_request ''garbage''))))
   \<and> fst (GetUsername (example_deps True) ''jwt-anon'') = []
   \<and> userID (userAuthorizeHandler (example_deps True) (token_request ''jwt-anon'') Map.empty) = []
   \<and> Rdb_Get (example_deps True) (LoginTokenKey (example_deps True) ''carol'')
      = Inl (ExternalError ''redis: nil'')
   \<and> session_out (userAuthorizeHandler (example_deps True) (token_request ''jwt-carol'') Map.empty)
        ''ReturnUri''
      = Some (Form (ParseForm (ParseMultipartForm (token_request ''jwt-carol''))))
   \<and> Rdb_Get (example_deps True) (LoginTokenKey (example_deps True) ''bob'') = Inr ''jwt-bob-2''
   \<and> session_out (userAuthorizeHandler (example_deps True) (token_request ''jwt-bob'') Map.empty)
        ''ReturnUri''
      = Some (Form (ParseForm (ParseMultipartForm (token_request ''jwt-bob''))))
   \<and> w_out (userAuthorizeHandler (example_deps True) (token_request ''jwt-bob'') Map.empty)
      = [Header_Set ''Content-Type'' ''application/json'', Write_json (Failed AUTH_ERROR)]"
proof -
  note at = userAuthorizeHandler_unauthenticated
              [where d = "example_deps True" and persisted = Map.empty, OF example_deps_Start]
  have a1: "Rdb_Get (example_deps True) (LoginTokenKey (example_deps True) ''carol'')
              = Inl (ExternalError ''redis: nil'')"
    by (simp add: example_deps_def)
  have a2: "Rdb_Get (example_deps True) (LoginTokenKey (example_deps True) ''bob'') = Inr ''jwt-bob-2''"
    by (simp add: example_deps_def)
  have a3: "GetUsername (example_deps True) ''garbage'' = ([], Some (ExternalError ''token is malformed''))"
    "GetUsername (example_deps True) ''jwt-anon'' = ([], None)"
    "GetUsername (example_deps True) ''jwt-carol'' = (''carol'', None)"
    "GetUsername (example_deps True) ''jwt-bob'' = (''bob'', None)"
    by (simp_all add: example_deps_def)
  show ?thesis
    using
      at [OF anonymous_request_token [symmetric]]
      at [OF token_request_token [of "''garbage''", symmetric]]
      at [OF token_request_token [of "''jwt-anon''", symmetric]]
      at [OF token_request_token [of "''jwt-carol''", symmetric]]
      at [OF token_request_token [of "''jwt-bob''", symmetric]]
    by (simp add: a1 a2 a3 example_deps_Start)
qed

text \<open>
  C7, as stated, fails in its last clause. The session holds a \<open>ReturnUri\<close> entry and
  the request brings no token; \<open>Authorize\<close> replays the entry, deletes it and saves,
  and then the library calls the registered callback, which finds no token and stores
  the form under \<open>ReturnUri\<close> again: the session the handler leaves holds an entry.
\<close>

theorem Authorize_ReturnUri_counterexample:
  "session_Start (example_deps True) held_session = Inr held_session
   \<and> (case Authorize (example_deps True) (calls_userAuthorizeHandler (example_deps True))
              anonymous_request held_session of
         Returns (w, left) \<Rightarrow>
           left ''ReturnUri'' \<noteq> None
           \<and> w = [Header_Set ''Content-Type'' ''application/json'', Write_json (Failed AUTH_ERROR)]
       | Panics \<Rightarrow> False)"
  by (simp add: Authorize_def calls_userAuthorizeHandler_def userAuthorizeHandler_def
        unauthenticated_def example_deps_def held_session_def anonymous_request_def
        authorize_params_def unparsed_request_def ParseForm_def ParseMultipartForm_def
        Values_Get_def Values_Add_def Let_def)

text \<open>
  C7, amended. When the session starts, \<open>Authorize\<close> does one of three things,
  by what the session holds under \<open>ReturnUri\<close>. For an entry holding a form, it calls
  the library with the request form set to that form with the inbound request's token
  appended under \<open>token\<close>; with no entry, it calls the library with a nil request form.
  In both cases the session it has saved and hands to the library has no \<open>ReturnUri\<close>
  entry, the handler adds the internal-error envelope when the library returns an error,
  and the session it leaves is the one the library leaves. For an entry holding a nil
  form, \<open>form.Add\<close> panics.
\<close>

theorem Authorize_replays_then_clears:
  assumes "session_Start d persisted = Inr store"
    and "token = Values_Get (Form (ParseForm (ParseMultipartForm r))) ''token''"
  shows "(\<forall>m. store ''ReturnUri'' = Some (Some m) \<longrightarrow>
            (\<exists>w left err.
               HandleAuthorizeRequest
                 (r\<lparr>Form := Some (m(''token'' \<mapsto>
                                      (case m ''token'' of None \<Rightarrow> [] | Some vs \<Rightarrow> vs) @ [token]))\<rparr>)
                 (store(''ReturnUri'' := None)) = (w, left, err)
             \<and> Authorize d HandleAuthorizeRequest r persisted =
                 Returns (w @ (if err = None then []
                               else [JSON 500 (Failed (Wrap InternalErr err))]), left)))
       \<and> (store ''ReturnUri'' = None \<longrightarrow>
            (\<exists>w left err.
               HandleAuthorizeRequest (r\<lparr>Form := None\<rparr>) (store(''ReturnUri'' := None))
                 = (w, left, err)
             \<and> Authorize d HandleAuthorizeRequest r persisted =
                 Returns (w @ (if err = None then []
                               else [JSON 500 (Failed (Wrap InternalErr err))]), left)))
       \<and> (store ''ReturnUri'' = Some None \<longrightarrow>
            Authorize d HandleAuthorizeRequest r persisted = Panics)"
  using assms
  by (auto simp add: Authorize_def Values_Add_def ParseForm_def ParseMultipartForm_def Let_def
        StatusInternalServerError_def split: prod.splits)

text \<open>
  The callback, the only writer of the entry, never stores a nil form: a nil entry in
  the session it leaves was there before.
\<close>

lemma userAuthorizeHandler_stores_no_nil:
  assumes "session_out (userAuthorizeHandler d r persisted) ''ReturnUri'' = Some None"
  shows "persisted ''ReturnUri'' = Some None"
proof (cases "session_Start d persisted")
  case (Inl e)
  with assms show ?thesis
    by (simp add: userAuthorizeHandler_def)
next
  case (Inr store)
  let ?r = "ParseForm (ParseMultipartForm r)"
  have parsed: "Form ?r \<noteq> None"
    by (simp add: ParseForm_ParseMultipartForm Form_ParseForm)
  have "(\<exists>err. userAuthorizeHandler d r persisted = unauthenticated ?r store err)
        \<or> session_out (userAuthorizeHandler d r persisted) = persisted"
    using Inr
    by (auto simp add: userAuthorizeHandler_def Let_def split: prod.splits sum.splits)
  then show ?thesis
  proof
    assume "\<exists>err. userAuthorizeHandler d r persisted = unauthenticated ?r store err"
    then obtain err where "userAuthorizeHandler d r persisted = unauthenticated ?r store err" ..
    with assms parsed show ?thesis
      by (simp add: unauthenticated_parsed [OF parsed])
  next
    assume "session_out (userAuthorizeHandler d r persisted) = persisted"
    with assms show ?thesis by simp
  qed
qed

theorem Authorize_replays_then_clears_witness:
  "session_Start (example_deps True) held_session = Inr held_session
   \<and> held_session ''ReturnUri'' = Some (Some authorize_params)
   \<and> (\<exists>left.
        Authorize (example_deps True) recording_library (token_request ''jwt-alice'') held_session
          = Returns ([Library_output ''c1'', Library_output ''jwt-alice'', Library_output ''cleared''],
                     left)
        \<and> left ''ReturnUri'' = None)
   \<and> session_Start (example_deps True) Map.empty = Inr Map.empty
   \<and> (\<exists>left.
        Authorize (example_deps True) recording_library (token_request ''jwt-alice'') Map.empty
          = Returns ([Library_output [], Library_output [], Library_output ''cleared''], left)
        \<and> left ''ReturnUri'' = None)
   \<and> session_Start (example_deps True) [''ReturnUri'' \<mapsto> None] = Inr [''ReturnUri'' \<mapsto> None]
   \<and> Authorize (example_deps True) recording_library (token_request ''jwt-alice'')
        [''ReturnUri'' \<mapsto> None]
      = Panics"
proof -
  note at = Authorize_replays_then_clears
              [where d = "example_deps True" and HandleAuthorizeRequest = recording_library
                 and r = "token_request ''jwt-alice''",
               OF example_deps_Start token_request_token [symmetric]]
  have h: "held_session ''ReturnUri'' = Some (Some authorize_params)"
    by (simp add: held_session_def)
  show ?thesis
    using at [of held_session] at [of Map.empty] at [of "[''ReturnUri'' \<mapsto> None]"] h
    by (auto simp add: example_deps_Start recording_library_def Values_Get_def authorize_params_def)
qed

text \<open>
  C9. \<open>CheckPassword\<close> panics for a name that matches no record: the lookup leaves
  \<open>user\<close> zero-valued and line 62 dereferences its nil \<open>Password\<close>.
\<close>

theorem CheckPassword_unknown_user_panics:
  "CheckPassword (\<lambda>q. Inl ErrRecordNotFound) ''nobody'' ''secret'' = Panics
   \<and> CheckPassword (\<lambda>q. Inl ErrRecordNotFound) ''nobody@example.org'' ''secret'' = Panics"
  by (simp add: CheckPassword_def MatchString_at_def zero_User_def)

text \<open>
  C10. \<open>OauthUserInfo\<close> panics when the token loads and the user lookup returns a nil
  user with its error, as \<open>model.UserInfo\<close> does for a failed query: line 125 reads
  \<open>user.Uid\<close> before the \<open>GET_USERINFO_FAIL\<close> envelope is written.
\<close>

theorem OauthUserInfo_lookup_error_panics:
  "LoadAccessToken example_Manager ''at-1''
     = Inr \<lparr>ClientID = ''c1'', UserID = ''B21010101'', Scope = ''all''\<rparr>
   \<and> fst (UserInfo (\<lambda>q. Inl ErrRecordNotFound) ''B21010101'') = None
   \<and> snd (UserInfo (\<lambda>q. Inl ErrRecordNotFound) ''B21010101'') \<noteq> None
   \<and> OauthUserInfo example_Manager (UserInfo (\<lambda>q. Inl ErrRecordNotFound))
        (unparsed_request [''Authorization'' \<mapsto> ''Bearer at-1''] Map.empty)
      = Panics"
  by (simp add: OauthUserInfo_def UserInfo_def example_Manager_def unparsed_request_def
        GetHeader_def)

end
